theory Spec2Isabelle
  imports Main
begin

section \<open>Data model\<close>

text \<open>
  The exceptions the collator can raise, as values. \<open>ValueError\<close> is Python's (unpacking
  too few values, \<open>max\<close> of an empty list), \<open>RuntimeError\<close> is the tensor library's
  shape mismatch on a slice assignment, \<open>IndexError\<close> an index out of range.
\<close>

datatype error = ValueError | RuntimeError | IndexError

text \<open>
  A two-dimensional tensor: its shape \<open>(dim0, dim1)\<close> and its entries, one list per row.
  The shape is kept beside the entries because a tensor with no row, or with rows of no
  column, still has both dimensions (\<open>torch.full((3, 0), v).shape = (3, 0)\<close>).
\<close>

record 'a tensor2 =
  dim0 :: nat
  dim1 :: nat
  entries :: "'a list list"

text \<open>The entry at row \<open>i\<close>, column \<open>j\<close>; read only inside the shape.\<close>

definition at :: "'a tensor2 \<Rightarrow> nat \<Rightarrow> nat \<Rightarrow> 'a" where
  "at t i j = entries t ! i ! j"

text \<open>The entries agree with the shape: \<open>dim0\<close> rows, each of \<open>dim1\<close> columns.\<close>

definition well_shaped :: "'a tensor2 \<Rightarrow> bool" where
  "well_shaped t \<longleftrightarrow>
     length (entries t) = dim0 t \<and> list_all (\<lambda>r. length r = dim1 t) (entries t)"

text \<open>\<open>torch.full((n, m), v)\<close>: an \<open>n\<close> by \<open>m\<close> tensor, every entry \<open>v\<close>.\<close>

definition full :: "nat \<times> nat \<Rightarrow> 'a \<Rightarrow> 'a tensor2" where
  "full shp v =
     \<lparr>dim0 = fst shp, dim1 = snd shp,
      entries = replicate (fst shp) (replicate (snd shp) v)\<rparr>"

text \<open>\<open>torch.arange(n)\<close>: the positions \<open>0, ..., n - 1\<close>.\<close>

definition arange :: "nat \<Rightarrow> nat list" where
  "arange n = [0..<n]"

text \<open>
  The slice assignment \<open>t[i, :e] = src\<close> of \<open>merge\<close>. The slice on the left has
  \<open>min e (dim1 t)\<close> columns. The assignment succeeds when \<open>src\<close> has as many entries, or
  has one entry (which is then broadcast over the slice); any other length is a shape
  mismatch.
\<close>

definition setitem_prefix :: "'a tensor2 \<Rightarrow> nat \<Rightarrow> nat \<Rightarrow> 'a list \<Rightarrow> error + 'a tensor2" where
  "setitem_prefix t i e src =
     (if dim0 t \<le> i then Inl IndexError
      else
        let w = min e (dim1 t) in
        if length src = w then
          Inr (t\<lparr>entries := (entries t)[i := src @ drop w (entries t ! i)]\<rparr>)
        else if length src = 1 then
          Inr (t\<lparr>entries := (entries t)[i := replicate w (hd src) @ drop w (entries t ! i)]\<rparr>)
        else Inl RuntimeError)"

text \<open>Python's \<open>max\<close> of a list: it raises on the empty list.\<close>

fun py_max :: "nat list \<Rightarrow> error + nat" where
  "py_max [] = Inl ValueError"
| "py_max (x # xs) = Inr (fold max xs x)"

section \<open>PadFunction\<close>

text \<open>The collator object: it holds the pad id it was constructed with.\<close>

record PadFunction =
  pad_id :: int

text \<open>The structure returned for one side of the batch: \<open>{'token_ids': ..., 'mask': ...}\<close>.\<close>

record tokens =
  token_ids :: "int tensor2"
  mask :: "bool tensor2"

text \<open>
  \<open>merge\<close>, lines 16 to 20: the lengths, the pad size (the maximum length when none is
  given, and \<open>_pad_fn\<close> gives none) and the grid filled with the pad id, one row per
  sequence.
\<close>

definition merge_alloc ::
  "PadFunction \<Rightarrow> int list list \<Rightarrow> nat option \<Rightarrow> error + (int tensor2 \<times> nat list)" where
  "merge_alloc self sequences pad_size =
     (let lengths = map length sequences in
      case (case pad_size of None \<Rightarrow> py_max lengths | Some p \<Rightarrow> Inr p) of
        Inl err \<Rightarrow> Inl err
      | Inr p \<Rightarrow> Inr (full (length lengths, p) (pad_id self), lengths))"

text \<open>
  \<open>merge\<close>, lines 21 to 23: the loop \<open>for i, seq in enumerate(sequences)\<close>, with the
  grid as its state and \<open>i\<close> the index of the head of the remaining sequences.
\<close>

fun merge_loop ::
  "int tensor2 \<Rightarrow> nat list \<Rightarrow> nat \<Rightarrow> int list list \<Rightarrow> error + int tensor2" where
  "merge_loop padded_seqs lengths i [] = Inr padded_seqs"
| "merge_loop padded_seqs lengths i (seq # seqs) =
     (if length lengths \<le> i then Inl IndexError
      else
        let e = lengths ! i in
        case setitem_prefix padded_seqs i e (take e seq) of
          Inl err \<Rightarrow> Inl err
        | Inr padded_seqs' \<Rightarrow> merge_loop padded_seqs' lengths (Suc i) seqs)"

definition merge ::
  "PadFunction \<Rightarrow> int list list \<Rightarrow> nat option \<Rightarrow> error + (int tensor2 \<times> nat list)" where
  "merge self sequences pad_size =
     (case merge_alloc self sequences pad_size of
        Inl err \<Rightarrow> Inl err
      | Inr (padded_seqs, lengths) \<Rightarrow>
          (case merge_loop padded_seqs lengths 0 sequences of
             Inl err \<Rightarrow> Inl err
           | Inr padded_seqs' \<Rightarrow> Inr (padded_seqs', lengths)))"

text \<open>
  \<open>make_mask\<close>: the row of positions, expanded to one row per length, compared entry by
  entry with the column of lengths.
\<close>

definition make_mask :: "PadFunction \<Rightarrow> 'a tensor2 \<Rightarrow> nat list \<Rightarrow> bool tensor2" where
  "make_mask self inputs inputs_length =
     (let max_len = dim1 inputs;
          n = length inputs_length
      in \<lparr>dim0 = n, dim1 = max_len,
          entries = map2 (\<lambda>row l. map (\<lambda>j. j < l) row)
                      (replicate n (arange max_len)) inputs_length\<rparr>)"

text \<open>
  \<open>src_seqs, trg_seqs = tuple(zip(*batch))\<close>: the zip of no pair is empty, and unpacking
  the empty tuple into two names raises.
\<close>

definition unzip_batch :: "('a \<times> 'b) list \<Rightarrow> error + ('a list \<times> 'b list)" where
  "unzip_batch batch =
     (if batch = [] then Inl ValueError else Inr (map fst batch, map snd batch))"

definition pad_fn ::
  "PadFunction \<Rightarrow> (int list \<times> int list) list \<Rightarrow> error + (tokens \<times> tokens)" where
  "pad_fn self batch =
     (case unzip_batch batch of
        Inl err \<Rightarrow> Inl err
      | Inr (src_seqs, trg_seqs) \<Rightarrow>
          let pad_size = None in
          (case merge self src_seqs pad_size of
             Inl err \<Rightarrow> Inl err
           | Inr (src_padded, src_lengths) \<Rightarrow>
               (case merge self trg_seqs pad_size of
                  Inl err \<Rightarrow> Inl err
                | Inr (trg_padded, trg_lengths) \<Rightarrow>
                    Inr (\<lparr>token_ids = src_padded,
                          mask = make_mask self src_padded src_lengths\<rparr>,
                         \<lparr>token_ids = trg_padded,
                          mask = make_mask self trg_padded trg_lengths\<rparr>))))"

text \<open>\<open>__call__\<close>.\<close>

definition call ::
  "PadFunction \<Rightarrow> (int list \<times> int list) list \<Rightarrow> error + (tokens \<times> tokens)" where
  "call self batch = pad_fn self batch"

section \<open>BartForMaskedLM\<close>

text \<open>
  The slices of the two steps, on a two-dimensional tensor. \<open>t[..., :-1]\<close> keeps every
  column but the last and \<open>t[..., 1:]\<close> every column but the first; a tensor of no column
  is left as it is by both. \<open>t.view(-1)\<close> lists the entries row after row.
\<close>

definition slice_but_last :: "'a tensor2 \<Rightarrow> 'a tensor2" where
  "slice_but_last t =
     \<lparr>dim0 = dim0 t, dim1 = dim1 t - 1, entries = map butlast (entries t)\<rparr>"

definition slice_from_one :: "'a tensor2 \<Rightarrow> 'a tensor2" where
  "slice_from_one t =
     \<lparr>dim0 = dim0 t, dim1 = dim1 t - 1, entries = map tl (entries t)\<rparr>"

definition view_flat :: "'a tensor2 \<Rightarrow> 'a list" where
  "view_flat t = concat (entries t)"

text \<open>
  The module. \<open>pad_token_id\<close> is the tokenizer's pad token id and \<open>vocab_size\<close> its
  vocabulary size, as \<open>__init__\<close> sets them. The transformer (with its
  \<open>last_hidden_state\<close>), the linear head and the view of the logits as rows of
  \<open>vocab_size\<close> scores are calls into external libraries on floating-point tensors: they
  are fields of the module, over types \<open>'h\<close>, \<open>'lg\<close> and \<open>'row\<close> left open. The
  transformer can raise (it does on a decoder input of no column, or of more positions
  than it has embeddings), so its field returns an error or the hidden states.
  \<open>nll_mean\<close> is the floating-point part of the cross-entropy loss: the mean, over the
  pairs of a row of scores and a target it is given, of the negative log-likelihood of
  the target.
\<close>

record ('h, 'lg, 'row, 'loss) BartForMaskedLM =
  pad_token_id :: int
  vocab_size :: nat
  transformer :: "int tensor2 \<Rightarrow> bool tensor2 \<Rightarrow> int tensor2 \<Rightarrow> bool tensor2 \<Rightarrow> error + 'h"
  lm_head :: "'h \<Rightarrow> 'lg"
  view_logits :: "'lg \<Rightarrow> nat \<Rightarrow> 'row list"
  nll_mean :: "('row \<times> int) list \<Rightarrow> 'loss"

text \<open>
  \<open>torch.nn.CrossEntropyLoss(ignore_index=...)(logits, targets)\<close> on rows of
  \<open>vocab_size\<close> scores and one target per row. It raises when there are not as many
  targets as rows. The positions whose target is the ignore index are left out; a
  remaining target that is no class (negative, or \<open>vocab_size\<close> or more) raises; the loss
  is the mean over the remaining positions.
\<close>

definition CrossEntropyLoss ::
  "('h, 'lg, 'row, 'loss) BartForMaskedLM \<Rightarrow> int \<Rightarrow> 'row list \<Rightarrow> int list \<Rightarrow> error + 'loss" where
  "CrossEntropyLoss self ignore_index logits targets =
     (if length logits \<noteq> length targets then Inl ValueError
      else
        let kept = filter (\<lambda>(row, t). t \<noteq> ignore_index) (zip logits targets) in
        if list_ex (\<lambda>(row, t). t < 0 \<or> int (vocab_size self) \<le> t) kept then Inl IndexError
        else Inr (nll_mean self kept))"

definition forward ::
  "('h, 'lg, 'row, 'loss) BartForMaskedLM \<Rightarrow> tokens \<Rightarrow> tokens \<Rightarrow> error + 'lg" where
  "forward self source_tokens target_tokens =
     (let input_ids = token_ids source_tokens;
          input_mask = mask source_tokens;
          label_ids = token_ids target_tokens;
          label_mask = mask target_tokens
      in case transformer self input_ids input_mask label_ids label_mask of
           Inl err \<Rightarrow> Inl err
         | Inr hidden_states \<Rightarrow>
             let lm_logits = lm_head self hidden_states in Inr lm_logits)"

text \<open>
  A step that does not raise returns what it logged (\<open>self.log(name, value)\<close>) and its
  return value: \<open>training_step\<close> returns the loss, \<open>validation_step\<close> returns nothing. An
  exception of the transformer or of the loss leaves the step.
\<close>

definition training_step ::
  "('h, 'lg, 'row, 'loss) BartForMaskedLM \<Rightarrow> tokens \<times> tokens \<Rightarrow> nat \<Rightarrow>
   error + ((string \<times> 'loss) list \<times> 'loss option)" where
  "training_step self batch batch_idx =
     (let (inputs, labels) = batch;
          input_ids = token_ids inputs;
          input_mask = mask inputs;
          label_ids = token_ids labels;
          label_mask = mask labels
      in case forward self
                \<lparr>token_ids = input_ids, mask = input_mask\<rparr>
                \<lparr>token_ids = slice_but_last label_ids, mask = slice_but_last label_mask\<rparr> of
           Inl err \<Rightarrow> Inl err
         | Inr lm_logits \<Rightarrow>
             let shift_label_ids = slice_from_one label_ids in
             (case CrossEntropyLoss self (pad_token_id self)
                     (view_logits self lm_logits (vocab_size self))
                     (view_flat shift_label_ids) of
                Inl err \<Rightarrow> Inl err
              | Inr loss \<Rightarrow> Inr ([(''train_loss'', loss)], Some loss)))"

definition validation_step ::
  "('h, 'lg, 'row, 'loss) BartForMaskedLM \<Rightarrow> tokens \<times> tokens \<Rightarrow> nat \<Rightarrow>
   error + ((string \<times> 'loss) list \<times> 'loss option)" where
  "validation_step self batch batch_idx =
     (let (inputs, labels) = batch;
          input_ids = token_ids inputs;
          input_mask = mask inputs;
          label_ids = token_ids labels;
          label_mask = mask labels
      in case forward self
                \<lparr>token_ids = input_ids, mask = input_mask\<rparr>
                \<lparr>token_ids = slice_but_last label_ids, mask = slice_but_last label_mask\<rparr> of
           Inl err \<Rightarrow> Inl err
         | Inr lm_logits \<Rightarrow>
             let shift_label_ids = slice_from_one label_ids in
             (case CrossEntropyLoss self (pad_token_id self)
                     (view_logits self lm_logits (vocab_size self))
                     (view_flat shift_label_ids) of
                Inl err \<Rightarrow> Inl err
              | Inr loss \<Rightarrow> Inr ([(''val_loss'', loss)], None)))"

text \<open>
  The collator of \<open>train_dataloader\<close> and \<open>val_dataloader\<close>:
  \<open>PadFunction(self.tokenizer.pad_token_id)\<close>.
\<close>

definition pad_fn_object :: "('h, 'lg, 'row, 'loss) BartForMaskedLM \<Rightarrow> PadFunction" where
  "pad_fn_object self = \<lparr>pad_id = pad_token_id self\<rparr>"

section \<open>The collator's result in closed form\<close>

text \<open>
  What the loop of \<open>merge\<close> leaves in a row: the sequence, then the pad id up to the
  width. \<open>collated\<close> is the structure the collator returns for one side, written without
  the loop; \<open>pad_fn_collated\<close> below proves that it is.
\<close>

definition padded_row :: "nat \<Rightarrow> int \<Rightarrow> int list \<Rightarrow> int list" where
  "padded_row m p s = s @ replicate (m - length s) p"

definition collated :: "PadFunction \<Rightarrow> int list list \<Rightarrow> tokens" where
  "collated self seqs =
     (let m = Max (set (map length seqs)) in
      \<lparr>token_ids =
         \<lparr>dim0 = length seqs, dim1 = m, entries = map (padded_row m (pad_id self)) seqs\<rparr>,
       mask =
         \<lparr>dim0 = length seqs, dim1 = m,
          entries = map (\<lambda>s. map (\<lambda>j. j < length s) [0..<m]) seqs\<rparr>\<rparr>)"

lemma py_max_Max:
  assumes "xs \<noteq> []"
  shows "py_max xs = Inr (Max (set xs))"
proof (cases xs)
  case Nil
  with assms show ?thesis by simp
next
  case (Cons y ys)
  then show ?thesis using Max.set_eq_fold [of y ys] by simp
qed

lemma setitem_prefix_row:
  assumes "length s \<le> m"
  shows "setitem_prefix
           \<lparr>dim0 = length pre + Suc k, dim1 = m,
            entries = pre @ replicate (Suc k) (replicate m p)\<rparr>
           (length pre) (length s) (take (length s) s) =
         Inr \<lparr>dim0 = length pre + Suc k, dim1 = m,
              entries = (pre @ [padded_row m p s]) @ replicate k (replicate m p)\<rparr>"
  using assms
  by (simp add: setitem_prefix_def padded_row_def min_def nth_append list_update_append)

lemma merge_loop_fills:
  assumes "\<forall>s \<in> set seqs. length s \<le> m"
    and "drop (length pre) lengths = map length seqs"
  shows "merge_loop
           \<lparr>dim0 = length pre + length seqs, dim1 = m,
            entries = pre @ replicate (length seqs) (replicate m p)\<rparr>
           lengths (length pre) seqs =
         Inr \<lparr>dim0 = length pre + length seqs, dim1 = m,
              entries = pre @ map (padded_row m p) seqs\<rparr>"
  using assms
proof (induction seqs arbitrary: pre)
  case Nil
  then show ?case by simp
next
  case (Cons s seqs)
  from Cons.prems(2) have len: "length pre < length lengths"
    by (metis drop_eq_Nil2 list.simps(3) list.map_disc_iff not_le_imp_less)
  from Cons.prems(2) have first: "lengths ! length pre = length s"
    by (metis len hd_drop_conv_nth list.sel(1) list.simps(9))
  from Cons.prems(2)
  have rest_lengths: "drop (length (pre @ [padded_row m p s])) lengths = map length seqs"
    by (metis (no_types) drop_Suc length_append_singleton list.sel(3) list.simps(9) tl_drop)
  from Cons.prems(1) have fits: "length s \<le> m" and rest_fit: "\<forall>s \<in> set seqs. length s \<le> m"
    by simp_all
  have row: "setitem_prefix
           \<lparr>dim0 = length pre + length (s # seqs), dim1 = m,
            entries = pre @ replicate (length (s # seqs)) (replicate m p)\<rparr>
           (length pre) (length s) (take (length s) s) =
         Inr \<lparr>dim0 = length (pre @ [padded_row m p s]) + length seqs, dim1 = m,
              entries = (pre @ [padded_row m p s]) @ replicate (length seqs) (replicate m p)\<rparr>"
    using setitem_prefix_row [OF fits, of pre "length seqs" p] by simp
  show ?case
    using len first row Cons.IH [OF rest_fit rest_lengths] by simp
qed

lemma merge_alloc_None:
  assumes "sequences \<noteq> []"
  shows "merge_alloc self sequences None =
         Inr (full (length sequences, Max (set (map length sequences))) (pad_id self),
              map length sequences)"
  using assms by (simp add: merge_alloc_def py_max_Max)

lemma merge_loop_None:
  "merge_loop (full (length sequences, Max (set (map length sequences))) (pad_id self))
     (map length sequences) 0 sequences =
   Inr (token_ids (collated self sequences))"
proof -
  let ?m = "Max (set (map length sequences))"
  have bound: "\<forall>s \<in> set sequences. length s \<le> ?m" by simp
  show ?thesis
    using merge_loop_fills [OF bound, of "[]" "map length sequences" "pad_id self"]
    by (simp add: full_def collated_def Let_def)
qed

lemma merge_None:
  assumes "sequences \<noteq> []"
  shows "merge self sequences None =
         Inr (token_ids (collated self sequences), map length sequences)"
proof -
  let ?m = "Max (set (map length sequences))"
  have bound: "\<forall>s \<in> set sequences. length s \<le> ?m" by simp
  have loop:
    "merge_loop (full (length sequences, ?m) (pad_id self)) (map length sequences) 0 sequences =
     Inr \<lparr>dim0 = length sequences, dim1 = ?m,
          entries = map (padded_row ?m (pad_id self)) sequences\<rparr>"
    using merge_loop_fills [OF bound, of "[]" "map length sequences" "pad_id self"]
    by (simp add: full_def)
  show ?thesis
    using loop by (simp add: merge_def merge_alloc_None [OF assms] collated_def Let_def)
qed

lemma map2_replicate_left:
  "map2 f (replicate (length ys) a) ys = map (f a) ys"
  by (induction ys) simp_all

lemma make_mask_collated:
  "make_mask self (token_ids (collated self seqs)) (map length seqs) = mask (collated self seqs)"
  by (simp add: make_mask_def collated_def Let_def arange_def map2_replicate_left
      [of _ "map length seqs", simplified] comp_def)

lemma pad_fn_collated:
  assumes "batch \<noteq> []"
  shows "pad_fn self batch =
         Inr (collated self (map fst batch), collated self (map snd batch))"
proof -
  from assms have unzipped: "unzip_batch batch = Inr (map fst batch, map snd batch)"
    by (simp add: unzip_batch_def)
  from assms have sides: "map fst batch \<noteq> []" "map snd batch \<noteq> []"
    by simp_all
  show ?thesis
    by (simp add: pad_fn_def unzipped merge_None [OF sides(1)] merge_None [OF sides(2)]
        make_mask_collated del: map_map)
qed

lemma call_collated:
  assumes "batch \<noteq> []"
  shows "call self batch =
         Inr (collated self (map fst batch), collated self (map snd batch))"
  using assms by (simp add: call_def pad_fn_collated)

text \<open>Shape and entries of the closed form.\<close>

lemma collated_shape:
  "dim0 (token_ids (collated self seqs)) = length seqs"
  "dim1 (token_ids (collated self seqs)) = Max (set (map length seqs))"
  "dim0 (mask (collated self seqs)) = length seqs"
  "dim1 (mask (collated self seqs)) = Max (set (map length seqs))"
  by (simp_all add: collated_def Let_def)

lemma length_le_width:
  assumes "i < length seqs"
  shows "length (seqs ! i) \<le> Max (set (map length seqs))"
  using assms by simp

lemma collated_well_shaped:
  "well_shaped (token_ids (collated self seqs))"
  "well_shaped (mask (collated self seqs))"
  by (simp_all add: well_shaped_def collated_def Let_def list_all_iff padded_row_def)

lemma collated_row:
  assumes "i < length seqs"
  shows "entries (token_ids (collated self seqs)) ! i =
         seqs ! i @ replicate (Max (set (map length seqs)) - length (seqs ! i)) (pad_id self)"
  using assms by (simp add: collated_def Let_def padded_row_def)

lemma collated_mask_at:
  assumes "i < length seqs" and "j < Max (set (map length seqs))"
  shows "at (mask (collated self seqs)) i j \<longleftrightarrow> j < length (seqs ! i)"
  using assms by (simp add: at_def collated_def Let_def)

lemma collated_ids_at_pad:
  assumes "i < length seqs" and "length (seqs ! i) \<le> j" and "j < Max (set (map length seqs))"
  shows "at (token_ids (collated self seqs)) i j = pad_id self"
  using assms by (simp add: at_def collated_row nth_append)

lemma collated_ids_prefix:
  assumes "i < length seqs"
  shows "take (length (seqs ! i)) (entries (token_ids (collated self seqs)) ! i) = seqs ! i"
  using assms by (simp add: collated_row)

section \<open>Properties of the collator\<close>

text \<open>
  C1: for a non-empty batch the collator returns, and in each returned structure the mask
  has one row per pair and the width of the batch's longest sequence, and its entry at
  row \<open>i\<close>, position \<open>j\<close> is true if and only if \<open>j\<close> is below the length of the
  \<open>i\<close>-th sequence before padding. So the mask is a function of the lengths alone.
\<close>

theorem mask_true_iff_below_length:
  assumes "batch \<noteq> []"
  shows "\<exists>src trg. call self batch = Inr (src, trg) \<and>
           dim0 (mask src) = length batch \<and>
           dim1 (mask src) = Max (set (map (length \<circ> fst) batch)) \<and>
           well_shaped (mask src) \<and>
           (\<forall>i<length batch. \<forall>j<dim1 (mask src).
              at (mask src) i j \<longleftrightarrow> j < length (fst (batch ! i))) \<and>
           dim0 (mask trg) = length batch \<and>
           dim1 (mask trg) = Max (set (map (length \<circ> snd) batch)) \<and>
           well_shaped (mask trg) \<and>
           (\<forall>i<length batch. \<forall>j<dim1 (mask trg).
              at (mask trg) i j \<longleftrightarrow> j < length (snd (batch ! i)))"
proof -
  let ?s = "collated self (map fst batch)" and ?t = "collated self (map snd batch)"
  have result: "call self batch = Inr (?s, ?t)"
    by (rule call_collated [OF assms])
  have src: "\<forall>i<length batch. \<forall>j<dim1 (mask ?s).
               at (mask ?s) i j \<longleftrightarrow> j < length (fst (batch ! i))"
    using collated_mask_at [of _ "map fst batch" _ self] by (simp add: collated_shape)
  have trg: "\<forall>i<length batch. \<forall>j<dim1 (mask ?t).
               at (mask ?t) i j \<longleftrightarrow> j < length (snd (batch ! i))"
    using collated_mask_at [of _ "map snd batch" _ self] by (simp add: collated_shape)
  from result src trg show ?thesis
    by (simp add: collated_shape collated_well_shaped)
qed

theorem mask_true_iff_below_length_witness:
  "[([1 :: int, 2, 3], [7 :: int]), ([4, 5], [8, 9])] \<noteq> [] \<and>
   (\<exists>src trg.
      call \<lparr>pad_id = 0\<rparr> [([1, 2, 3], [7]), ([4, 5], [8, 9])] = Inr (src, trg) \<and>
      at (mask src) 1 1 \<and> \<not> at (mask src) 1 2 \<and>
      at (mask trg) 0 0 \<and> \<not> at (mask trg) 0 1)"
proof -
  let ?b = "[([1 :: int, 2, 3], [7 :: int]), ([4, 5], [8, 9])]"
  have nonempty: "?b \<noteq> []" by simp
  from mask_true_iff_below_length [OF nonempty, of "\<lparr>pad_id = 0\<rparr>"]
  obtain src trg where result: "call \<lparr>pad_id = 0\<rparr> ?b = Inr (src, trg)"
    and ws: "dim1 (mask src) = Max (set (map (length \<circ> fst) ?b))"
    and ms: "\<forall>i<length ?b. \<forall>j<dim1 (mask src).
               at (mask src) i j \<longleftrightarrow> j < length (fst (?b ! i))"
    and wt: "dim1 (mask trg) = Max (set (map (length \<circ> snd) ?b))"
    and mt: "\<forall>i<length ?b. \<forall>j<dim1 (mask trg).
               at (mask trg) i j \<longleftrightarrow> j < length (snd (?b ! i))"
    by blast
  from ws have ws3: "dim1 (mask src) = 3" by simp
  from wt have wt2: "dim1 (mask trg) = 2" by simp
  from ms ws3 have "at (mask src) 1 1" "\<not> at (mask src) 1 2" by simp_all
  moreover from mt wt2 have "at (mask trg) 0 0" "\<not> at (mask trg) 0 1" by simp_all
  ultimately show ?thesis using result by simp
qed

text \<open>
  C2: for a non-empty batch the padded \<open>token_ids\<close> of the source has exactly the width
  of the longest source sequence of that batch, and the padded \<open>token_ids\<close> of the target
  the width of the longest target sequence of that batch; every row has that width.
\<close>

theorem padded_width_is_batch_maximum:
  assumes "batch \<noteq> []"
  shows "\<exists>src trg. call self batch = Inr (src, trg) \<and>
           dim1 (token_ids src) = Max (set (map (length \<circ> fst) batch)) \<and>
           dim1 (token_ids trg) = Max (set (map (length \<circ> snd) batch)) \<and>
           well_shaped (token_ids src) \<and> well_shaped (token_ids trg)"
  using call_collated [OF assms, of self]
  by (simp add: collated_shape collated_well_shaped)

theorem padded_width_is_batch_maximum_witness:
  "[([1 :: int, 2, 3], [7 :: int]), ([4, 5], [8, 9])] \<noteq> [] \<and>
   (\<exists>src trg.
      call \<lparr>pad_id = 0\<rparr> [([1, 2, 3], [7]), ([4, 5], [8, 9])] = Inr (src, trg) \<and>
      dim1 (token_ids src) = 3 \<and> dim1 (token_ids trg) = 2)"
proof -
  let ?b = "[([1 :: int, 2, 3], [7 :: int]), ([4, 5], [8, 9])]"
  have nonempty: "?b \<noteq> []" by simp
  from padded_width_is_batch_maximum [OF nonempty, of "\<lparr>pad_id = 0\<rparr>"]
  obtain src trg where result: "call \<lparr>pad_id = 0\<rparr> ?b = Inr (src, trg)"
    and ws: "dim1 (token_ids src) = Max (set (map (length \<circ> fst) ?b))"
    and wt: "dim1 (token_ids trg) = Max (set (map (length \<circ> snd) ?b))"
    by blast
  from ws have "dim1 (token_ids src) = 3" by simp
  moreover from wt have "dim1 (token_ids trg) = 2" by simp
  ultimately show ?thesis using result by simp
qed

text \<open>
  C3: for a non-empty batch and every row \<open>i\<close>, every entry of \<open>token_ids\<close> at a position
  from the length of the \<open>i\<close>-th sequence up to the width is the pad id the collator was
  constructed with.
\<close>

theorem padding_positions_hold_pad_id:
  assumes "batch \<noteq> []"
  shows "\<exists>src trg. call self batch = Inr (src, trg) \<and>
           (\<forall>i<length batch. \<forall>j<dim1 (token_ids src).
              length (fst (batch ! i)) \<le> j \<longrightarrow> at (token_ids src) i j = pad_id self) \<and>
           (\<forall>i<length batch. \<forall>j<dim1 (token_ids trg).
              length (snd (batch ! i)) \<le> j \<longrightarrow> at (token_ids trg) i j = pad_id self)"
proof -
  let ?s = "collated self (map fst batch)" and ?t = "collated self (map snd batch)"
  have result: "call self batch = Inr (?s, ?t)"
    by (rule call_collated [OF assms])
  have src: "\<forall>i<length batch. \<forall>j<dim1 (token_ids ?s).
               length (fst (batch ! i)) \<le> j \<longrightarrow> at (token_ids ?s) i j = pad_id self"
    using collated_ids_at_pad [of _ "map fst batch" _ self] by (simp add: collated_shape)
  have trg: "\<forall>i<length batch. \<forall>j<dim1 (token_ids ?t).
               length (snd (batch ! i)) \<le> j \<longrightarrow> at (token_ids ?t) i j = pad_id self"
    using collated_ids_at_pad [of _ "map snd batch" _ self] by (simp add: collated_shape)
  from result src trg show ?thesis by simp
qed

theorem padding_positions_hold_pad_id_witness:
  "[([1 :: int, 2, 3], [7 :: int]), ([4, 5], [8, 9])] \<noteq> [] \<and>
   (\<exists>src trg.
      call \<lparr>pad_id = 99\<rparr> [([1, 2, 3], [7]), ([4, 5], [8, 9])] = Inr (src, trg) \<and>
      at (token_ids src) 1 2 = 99 \<and> at (token_ids trg) 0 1 = 99)"
proof -
  let ?b = "[([1 :: int, 2, 3], [7 :: int]), ([4, 5], [8, 9])]"
  have nonempty: "?b \<noteq> []" by simp
  from padding_positions_hold_pad_id [OF nonempty, of "\<lparr>pad_id = 99\<rparr>"]
  obtain src trg where result: "call \<lparr>pad_id = 99\<rparr> ?b = Inr (src, trg)"
    and ps: "\<forall>i<length ?b. \<forall>j<dim1 (token_ids src).
               length (fst (?b ! i)) \<le> j \<longrightarrow> at (token_ids src) i j = pad_id \<lparr>pad_id = 99\<rparr>"
    and pt: "\<forall>i<length ?b. \<forall>j<dim1 (token_ids trg).
               length (snd (?b ! i)) \<le> j \<longrightarrow> at (token_ids trg) i j = pad_id \<lparr>pad_id = 99\<rparr>"
    by blast
  from call_collated [OF nonempty, of "\<lparr>pad_id = 99\<rparr>"] result
  have widths: "dim1 (token_ids src) = 3" "dim1 (token_ids trg) = 2"
    by (auto simp add: collated_shape)
  from ps widths have "at (token_ids src) 1 2 = 99" by simp
  moreover from pt widths have "at (token_ids trg) 0 1 = 99" by simp
  ultimately show ?thesis using result by simp
qed

text \<open>
  C4: for a non-empty batch, \<open>token_ids\<close> has one row per pair, in the order of the
  batch, and the first \<open>Li\<close> entries of row \<open>i\<close> are the \<open>i\<close>-th input sequence, whole and
  in its order; the row has the width of the tensor, so nothing of the sequence is cut.
\<close>

theorem rows_start_with_their_sequence:
  assumes "batch \<noteq> []"
  shows "\<exists>src trg. call self batch = Inr (src, trg) \<and>
           dim0 (token_ids src) = length batch \<and> well_shaped (token_ids src) \<and>
           (\<forall>i<length batch.
              take (length (fst (batch ! i))) (entries (token_ids src) ! i) = fst (batch ! i)) \<and>
           dim0 (token_ids trg) = length batch \<and> well_shaped (token_ids trg) \<and>
           (\<forall>i<length batch.
              take (length (snd (batch ! i))) (entries (token_ids trg) ! i) = snd (batch ! i))"
proof -
  let ?s = "collated self (map fst batch)" and ?t = "collated self (map snd batch)"
  have result: "call self batch = Inr (?s, ?t)"
    by (rule call_collated [OF assms])
  have src: "\<forall>i<length batch.
               take (length (fst (batch ! i))) (entries (token_ids ?s) ! i) = fst (batch ! i)"
    using collated_ids_prefix [of _ "map fst batch" self] by simp
  have trg: "\<forall>i<length batch.
               take (length (snd (batch ! i))) (entries (token_ids ?t) ! i) = snd (batch ! i)"
    using collated_ids_prefix [of _ "map snd batch" self] by simp
  from result src trg show ?thesis
    by (simp add: collated_shape collated_well_shaped)
qed

theorem rows_start_with_their_sequence_witness:
  "[([1 :: int, 2, 3], [7 :: int]), ([4, 5], [8, 9])] \<noteq> [] \<and>
   (\<exists>src trg.
      call \<lparr>pad_id = 0\<rparr> [([1, 2, 3], [7]), ([4, 5], [8, 9])] = Inr (src, trg) \<and>
      take 3 (entries (token_ids src) ! 0) = [1, 2, 3] \<and>
      take 2 (entries (token_ids src) ! 1) = [4, 5] \<and>
      take 1 (entries (token_ids trg) ! 0) = [7] \<and>
      take 2 (entries (token_ids trg) ! 1) = [8, 9])"
proof -
  let ?b = "[([1 :: int, 2, 3], [7 :: int]), ([4, 5], [8, 9])]"
  have nonempty: "?b \<noteq> []" by simp
  from rows_start_with_their_sequence [OF nonempty, of "\<lparr>pad_id = 0\<rparr>"]
  obtain src trg where result: "call \<lparr>pad_id = 0\<rparr> ?b = Inr (src, trg)"
    and rs: "\<forall>i<length ?b.
               take (length (fst (?b ! i))) (entries (token_ids src) ! i) = fst (?b ! i)"
    and rt: "\<forall>i<length ?b.
               take (length (snd (?b ! i))) (entries (token_ids trg) ! i) = snd (?b ! i)"
    by blast
  from rs [rule_format, of 0] have "take 3 (entries (token_ids src) ! 0) = [1, 2, 3]"
    by (simp add: eval_nat_numeral)
  moreover
  from rs [rule_format, of 1] have "take 2 (entries (token_ids src) ! 1) = [4, 5]"
    by (simp add: eval_nat_numeral)
  moreover
  from rt [rule_format, of 0] have "take 1 (entries (token_ids trg) ! 0) = [7]"
    by (simp add: eval_nat_numeral)
  moreover
  from rt [rule_format, of 1] have "take 2 (entries (token_ids trg) ! 1) = [8, 9]"
    by (simp add: eval_nat_numeral)
  ultimately show ?thesis using result by simp
qed

text \<open>
  C5: the source structure depends on the source sequences alone and the target structure
  on the target sequences alone, each with the width of its own longest sequence; and
  there is a batch whose source and target \<open>token_ids\<close> differ in width.
\<close>

theorem source_and_target_padded_independently:
  "(call self batch = Inr (src, trg) \<longrightarrow> call self batch' = Inr (src', trg') \<longrightarrow>
      (map fst batch = map fst batch' \<longrightarrow> src = src') \<and>
      (map snd batch = map snd batch' \<longrightarrow> trg = trg') \<and>
      dim1 (token_ids src) = Max (set (map (length \<circ> fst) batch)) \<and>
      dim1 (token_ids trg) = Max (set (map (length \<circ> snd) batch))) \<and>
   (\<exists>b s t. call self b = Inr (s, t) \<and> dim1 (token_ids s) \<noteq> dim1 (token_ids t))"
proof (intro conjI impI)
  assume first: "call self batch = Inr (src, trg)"
    and second: "call self batch' = Inr (src', trg')"
  from first have nonempty: "batch \<noteq> []"
    by (auto simp add: call_def pad_fn_def unzip_batch_def)
  from second have nonempty': "batch' \<noteq> []"
    by (auto simp add: call_def pad_fn_def unzip_batch_def)
  from first call_collated [OF nonempty, of self]
  have parts: "src = collated self (map fst batch)" "trg = collated self (map snd batch)"
    by simp_all
  from second call_collated [OF nonempty', of self]
  have parts': "src' = collated self (map fst batch')" "trg' = collated self (map snd batch')"
    by simp_all
  show "src = src'" if "map fst batch = map fst batch'"
    using that parts(1) parts'(1) by simp
  show "trg = trg'" if "map snd batch = map snd batch'"
    using that parts(2) parts'(2) by simp
  show "dim1 (token_ids src) = Max (set (map (length \<circ> fst) batch))"
    using parts(1) by (simp add: collated_shape)
  show "dim1 (token_ids trg) = Max (set (map (length \<circ> snd) batch))"
    using parts(2) by (simp add: collated_shape)
next
  let ?b = "[([1 :: int], [2 :: int, 3])]"
  have nonempty: "?b \<noteq> []" by simp
  have "dim1 (token_ids (collated self (map fst ?b))) \<noteq>
        dim1 (token_ids (collated self (map snd ?b)))"
    by (simp add: collated_shape)
  with call_collated [OF nonempty, of self]
  show "\<exists>b s t. call self b = Inr (s, t) \<and> dim1 (token_ids s) \<noteq> dim1 (token_ids t)"
    by blast
qed

theorem source_and_target_padded_independently_witness:
  "\<exists>src trg src' trg'.
     call \<lparr>pad_id = 0\<rparr> [([1, 2, 3], [7]), ([4, 5], [8, 9])] = Inr (src, trg) \<and>
     call \<lparr>pad_id = 0\<rparr> [([1, 2, 3], [6, 6, 6, 6]), ([4, 5], [])] = Inr (src', trg') \<and>
     map fst [([1 :: int, 2, 3], [7 :: int]), ([4, 5], [8, 9])] =
       map fst [([1 :: int, 2, 3], [6 :: int, 6, 6, 6]), ([4, 5], [])] \<and>
     src = src' \<and> dim1 (token_ids src) = 3 \<and> dim1 (token_ids trg) = 2 \<and>
     dim1 (token_ids trg') = 4"
proof -
  let ?b = "[([1 :: int, 2, 3], [7 :: int]), ([4, 5], [8, 9])]"
  let ?b' = "[([1 :: int, 2, 3], [6 :: int, 6, 6, 6]), ([4, 5], [])]"
  let ?p = "\<lparr>pad_id = 0\<rparr>"
  have nonempty: "?b \<noteq> []" "?b' \<noteq> []" by simp_all
  have first: "call ?p ?b = Inr (collated ?p (map fst ?b), collated ?p (map snd ?b))"
    by (rule call_collated [OF nonempty(1)])
  have second: "call ?p ?b' = Inr (collated ?p (map fst ?b'), collated ?p (map snd ?b'))"
    by (rule call_collated [OF nonempty(2)])
  have same: "map fst ?b = map fst ?b'" by simp
  from source_and_target_padded_independently
    [of ?p ?b "collated ?p (map fst ?b)" "collated ?p (map snd ?b)"
        ?b' "collated ?p (map fst ?b')" "collated ?p (map snd ?b')"]
    first second same
  have eq: "collated ?p (map fst ?b) = collated ?p (map fst ?b')"
    and ws: "dim1 (token_ids (collated ?p (map fst ?b))) = Max (set (map (length \<circ> fst) ?b))"
    and wt: "dim1 (token_ids (collated ?p (map snd ?b))) = Max (set (map (length \<circ> snd) ?b))"
    by blast+
  from ws have ws3: "dim1 (token_ids (collated ?p (map fst ?b))) = 3" by simp
  from wt have wt2: "dim1 (token_ids (collated ?p (map snd ?b))) = 2" by simp
  have wt4: "dim1 (token_ids (collated ?p (map snd ?b'))) = 4"
    by (simp add: collated_shape)
  from first second same eq ws3 wt2 wt4 show ?thesis by blast
qed

text \<open>
  C7, as the code has it: collating \<open>N\<close> sequences, \<open>merge\<close> allocates a grid of \<open>N\<close> rows
  by max-length columns (not max-length rows by \<open>N\<close> columns), every entry the pad id.
  The loop then copies the sequences into this grid: what \<open>merge\<close> returns has the
  shape of the grid, and its row \<open>i\<close> is the \<open>i\<close>-th sequence followed by the pad id.
\<close>

theorem grid_is_batch_by_max_length:
  assumes "sequences \<noteq> []"
  shows "\<exists>grid padded_seqs.
           merge_alloc self sequences None = Inr (grid, map length sequences) \<and>
           dim0 grid = length sequences \<and>
           dim1 grid = Max (set (map length sequences)) \<and>
           entries grid =
             replicate (length sequences)
               (replicate (Max (set (map length sequences))) (pad_id self)) \<and>
           merge_loop grid (map length sequences) 0 sequences = Inr padded_seqs \<and>
           merge self sequences None = Inr (padded_seqs, map length sequences) \<and>
           dim0 padded_seqs = length sequences \<and>
           dim1 padded_seqs = Max (set (map length sequences)) \<and>
           (\<forall>i<length sequences.
              entries padded_seqs ! i =
                sequences ! i @
                replicate (Max (set (map length sequences)) - length (sequences ! i))
                  (pad_id self))"
proof -
  let ?m = "Max (set (map length sequences))"
  let ?grid = "full (length sequences, ?m) (pad_id self)"
  let ?padded = "token_ids (collated self sequences)"
  have alloc: "merge_alloc self sequences None = Inr (?grid, map length sequences)"
    by (rule merge_alloc_None [OF assms])
  have grid: "dim0 ?grid = length sequences" "dim1 ?grid = ?m"
    "entries ?grid = replicate (length sequences) (replicate ?m (pad_id self))"
    by (simp_all add: full_def)
  have loop: "merge_loop ?grid (map length sequences) 0 sequences = Inr ?padded"
    by (rule merge_loop_None)
  have merged: "merge self sequences None = Inr (?padded, map length sequences)"
    by (rule merge_None [OF assms])
  have shape: "dim0 ?padded = length sequences" "dim1 ?padded = ?m"
    by (simp_all add: collated_shape)
  have copied: "\<forall>i<length sequences.
      entries ?padded ! i = sequences ! i @ replicate (?m - length (sequences ! i)) (pad_id self)"
    by (simp add: collated_row)
  from alloc grid loop merged shape copied show ?thesis by blast
qed

theorem grid_is_batch_by_max_length_witness:
  "[[1 :: int, 2, 3], [4, 5]] \<noteq> [] \<and>
   (\<exists>grid padded_seqs.
      merge_alloc \<lparr>pad_id = 0\<rparr> [[1, 2, 3], [4, 5]] None = Inr (grid, [3, 2]) \<and>
      dim0 grid = 2 \<and> dim1 grid = 3 \<and> entries grid = [[0, 0, 0], [0, 0, 0]] \<and>
      merge \<lparr>pad_id = 0\<rparr> [[1, 2, 3], [4, 5]] None = Inr (padded_seqs, [3, 2]) \<and>
      dim0 padded_seqs = 2 \<and> dim1 padded_seqs = 3 \<and>
      entries padded_seqs ! 0 = [1, 2, 3] \<and> entries padded_seqs ! 1 = [4, 5, 0])"
proof -
  let ?seqs = "[[1 :: int, 2, 3], [4, 5]]"
  have nonempty: "?seqs \<noteq> []" by simp
  from grid_is_batch_by_max_length [OF nonempty, of "\<lparr>pad_id = 0\<rparr>"]
  obtain grid padded_seqs
    where alloc: "merge_alloc \<lparr>pad_id = 0\<rparr> ?seqs None = Inr (grid, map length ?seqs)"
    and rows: "dim0 grid = length ?seqs"
    and cols: "dim1 grid = Max (set (map length ?seqs))"
    and filled: "entries grid =
      replicate (length ?seqs) (replicate (Max (set (map length ?seqs))) (pad_id \<lparr>pad_id = 0\<rparr>))"
    and merged: "merge \<lparr>pad_id = 0\<rparr> ?seqs None = Inr (padded_seqs, map length ?seqs)"
    and rows': "dim0 padded_seqs = length ?seqs"
    and cols': "dim1 padded_seqs = Max (set (map length ?seqs))"
    and copied: "\<forall>i<length ?seqs.
      entries padded_seqs ! i =
        ?seqs ! i @ replicate (Max (set (map length ?seqs)) - length (?seqs ! i))
          (pad_id \<lparr>pad_id = 0\<rparr>)"
    by (elim exE conjE)
  from alloc have a: "merge_alloc \<lparr>pad_id = 0\<rparr> ?seqs None = Inr (grid, [3, 2])" by simp
  from rows have r: "dim0 grid = 2" by simp
  from cols have c: "dim1 grid = 3" by simp
  from filled have f: "entries grid = [[0, 0, 0], [0, 0, 0]]"
    by (simp add: eval_nat_numeral)
  from merged have m: "merge \<lparr>pad_id = 0\<rparr> ?seqs None = Inr (padded_seqs, [3, 2])" by simp
  from rows' have r': "dim0 padded_seqs = 2" by simp
  from cols' have c': "dim1 padded_seqs = 3" by simp
  from copied [rule_format, of 0] have row0: "entries padded_seqs ! 0 = [1, 2, 3]" by simp
  from copied [rule_format, of 1] have row1: "entries padded_seqs ! 1 = [4, 5, 0]" by simp
  from nonempty a r c f m r' c' row0 row1 show ?thesis by blast
qed

text \<open>
  C7 with max-length rows by \<open>N\<close> columns does not hold: for the single sequence
  \<open>[1, 2]\<close> (\<open>N = 1\<close>, maximum length 2) the grid is 1 by 2, and it is not the 2 by 1
  grid.
\<close>

theorem grid_is_not_max_length_by_batch:
  "merge_alloc \<lparr>pad_id = 0\<rparr> [[1, 2]] None =
     Inr (\<lparr>dim0 = 1, dim1 = 2, entries = [[0, 0]]\<rparr>, [2]) \<and>
   merge_alloc \<lparr>pad_id = 0\<rparr> [[1, 2]] None \<noteq>
     Inr (\<lparr>dim0 = 2, dim1 = 1, entries = [[0], [0]]\<rparr>, [2])"
  by (simp add: merge_alloc_def full_def eval_nat_numeral)

text \<open>
  C8: for a batch of \<open>N \<ge> 1\<close> pairs whose sequences are all empty the collator returns,
  and each of the four tensors has \<open>N\<close> rows and no column.
\<close>

theorem all_empty_sequences_zero_width:
  assumes "batch \<noteq> []" and "\<forall>p \<in> set batch. fst p = [] \<and> snd p = []"
  shows "\<exists>src trg. call self batch = Inr (src, trg) \<and>
           dim0 (token_ids src) = length batch \<and> dim1 (token_ids src) = 0 \<and>
           entries (token_ids src) = replicate (length batch) [] \<and>
           dim0 (mask src) = length batch \<and> dim1 (mask src) = 0 \<and>
           entries (mask src) = replicate (length batch) [] \<and>
           dim0 (token_ids trg) = length batch \<and> dim1 (token_ids trg) = 0 \<and>
           entries (token_ids trg) = replicate (length batch) [] \<and>
           dim0 (mask trg) = length batch \<and> dim1 (mask trg) = 0 \<and>
           entries (mask trg) = replicate (length batch) []"
proof -
  from assms(2) have src: "map fst batch = replicate (length batch) []"
    by (simp add: map_replicate_const [symmetric] cong: map_cong)
  from assms(2) have trg: "map snd batch = replicate (length batch) []"
    by (simp add: map_replicate_const [symmetric] cong: map_cong)
  from assms(1) have width: "Max (set (map length (replicate (length batch) ([] :: int list)))) = 0"
    by simp
  have side: "collated self (replicate (length batch) []) =
      \<lparr>token_ids = \<lparr>dim0 = length batch, dim1 = 0, entries = replicate (length batch) []\<rparr>,
       mask = \<lparr>dim0 = length batch, dim1 = 0, entries = replicate (length batch) []\<rparr>\<rparr>"
    unfolding collated_def Let_def width by (simp add: padded_row_def)
  show ?thesis
    using call_collated [OF assms(1), of self] by (simp add: src trg side)
qed

theorem all_empty_sequences_zero_width_witness:
  "[([], []), ([], []), ([], [])] \<noteq> ([] :: (int list \<times> int list) list) \<and>
   (\<exists>src trg. call \<lparr>pad_id = 0\<rparr> [([], []), ([], []), ([], [])] = Inr (src, trg) \<and>
      dim0 (token_ids src) = 3 \<and> dim1 (token_ids src) = 0 \<and>
      dim0 (mask src) = 3 \<and> dim1 (mask src) = 0 \<and>
      dim0 (token_ids trg) = 3 \<and> dim1 (token_ids trg) = 0 \<and>
      dim0 (mask trg) = 3 \<and> dim1 (mask trg) = 0)"
proof -
  let ?b = "[([], []), ([], []), ([], [])] :: (int list \<times> int list) list"
  have nonempty: "?b \<noteq> []" by simp
  have empties: "\<forall>p \<in> set ?b. fst p = [] \<and> snd p = []" by simp
  from all_empty_sequences_zero_width [OF nonempty empties, of "\<lparr>pad_id = 0\<rparr>"]
  show ?thesis by auto
qed

text \<open>
  C9: for a non-empty batch, in each returned structure the mask has the shape of
  \<open>token_ids\<close>: as many rows and the same width, in the shape and in the entries.
\<close>

theorem mask_has_shape_of_token_ids:
  assumes "batch \<noteq> []"
  shows "\<exists>src trg. call self batch = Inr (src, trg) \<and>
           dim0 (mask src) = dim0 (token_ids src) \<and>
           dim1 (mask src) = dim1 (token_ids src) \<and>
           well_shaped (mask src) \<and> well_shaped (token_ids src) \<and>
           map length (entries (mask src)) = map length (entries (token_ids src)) \<and>
           dim0 (mask trg) = dim0 (token_ids trg) \<and>
           dim1 (mask trg) = dim1 (token_ids trg) \<and>
           well_shaped (mask trg) \<and> well_shaped (token_ids trg) \<and>
           map length (entries (mask trg)) = map length (entries (token_ids trg))"
proof -
  have rows: "map length (entries (mask (collated self seqs))) =
              map length (entries (token_ids (collated self seqs)))" for seqs
    by (simp add: collated_def Let_def padded_row_def)
  show ?thesis
    using call_collated [OF assms, of self]
    by (simp add: collated_shape collated_well_shaped rows)
qed

theorem mask_has_shape_of_token_ids_witness:
  "[([1 :: int, 2, 3], [7 :: int]), ([4, 5], [8, 9])] \<noteq> [] \<and>
   (\<exists>src trg.
      call \<lparr>pad_id = 0\<rparr> [([1, 2, 3], [7]), ([4, 5], [8, 9])] = Inr (src, trg) \<and>
      dim0 (mask src) = dim0 (token_ids src) \<and> dim1 (mask src) = dim1 (token_ids src) \<and>
      dim0 (mask trg) = dim0 (token_ids trg) \<and> dim1 (mask trg) = dim1 (token_ids trg))"
proof -
  let ?b = "[([1 :: int, 2, 3], [7 :: int]), ([4, 5], [8, 9])]"
  have nonempty: "?b \<noteq> []" by simp
  from mask_has_shape_of_token_ids [OF nonempty, of "\<lparr>pad_id = 0\<rparr>"]
  show ?thesis by auto
qed

section \<open>The training and validation steps\<close>

lemma slice_but_last_shape:
  "dim0 (slice_but_last t) = dim0 t" "dim1 (slice_but_last t) = dim1 t - 1"
  by (simp_all add: slice_but_last_def)

lemma slice_from_one_shape:
  "dim0 (slice_from_one t) = dim0 t" "dim1 (slice_from_one t) = dim1 t - 1"
  by (simp_all add: slice_from_one_def)

lemma slice_but_last_well_shaped:
  assumes "well_shaped t"
  shows "well_shaped (slice_but_last t)"
  using assms by (simp add: well_shaped_def slice_but_last_def list_all_iff)

lemma slice_from_one_well_shaped:
  assumes "well_shaped t"
  shows "well_shaped (slice_from_one t)"
  using assms by (simp add: well_shaped_def slice_from_one_def list_all_iff)

lemma slice_but_last_at:
  assumes "well_shaped t" and "i < dim0 t" and "j < dim1 t - 1"
  shows "at (slice_but_last t) i j = at t i j"
proof -
  from assms(1,2) have row: "i < length (entries t)" "length (entries t ! i) = dim1 t"
    by (simp_all add: well_shaped_def list_all_length)
  with assms(3) show ?thesis
    by (simp add: at_def slice_but_last_def nth_butlast)
qed

lemma slice_from_one_at:
  assumes "well_shaped t" and "i < dim0 t" and "j < dim1 t - 1"
  shows "at (slice_from_one t) i j = at t i (Suc j)"
proof -
  from assms(1,2) have row: "i < length (entries t)" "length (entries t ! i) = dim1 t"
    by (simp_all add: well_shaped_def list_all_length)
  with assms(3) show ?thesis
    by (simp add: at_def slice_from_one_def nth_tl)
qed

lemma concat_uniform_length:
  assumes "\<forall>r \<in> set rows. length r = w"
  shows "length (concat rows) = length rows * w"
  using assms by (induction rows) simp_all

lemma concat_uniform_nth:
  assumes "\<forall>r \<in> set rows. length r = w" and "i < length rows" and "j < w"
  shows "concat rows ! (i * w + j) = rows ! i ! j"
  using assms
proof (induction rows arbitrary: i)
  case Nil
  then show ?case by simp
next
  case (Cons r rows)
  show ?case
  proof (cases i)
    case 0
    with Cons.prems show ?thesis by (simp add: nth_append)
  next
    case (Suc k)
    with Cons.prems have "concat rows ! (k * w + j) = rows ! k ! j"
      by (intro Cons.IH) simp_all
    with Suc Cons.prems show ?thesis by (simp add: nth_append add.assoc)
  qed
qed

lemma view_flat_length:
  assumes "well_shaped t"
  shows "length (view_flat t) = dim0 t * dim1 t"
  using assms concat_uniform_length [of "entries t" "dim1 t"]
  by (simp add: view_flat_def well_shaped_def list_all_iff)

lemma view_flat_nth:
  assumes "well_shaped t" and "i < dim0 t" and "j < dim1 t"
  shows "view_flat t ! (i * dim1 t + j) = at t i j"
  using assms concat_uniform_nth [of "entries t" "dim1 t" i j]
  by (simp add: view_flat_def at_def well_shaped_def list_all_iff)

lemma call_Inr_nonempty:
  assumes "call self batch = Inr r"
  shows "batch \<noteq> []"
  using assms by (auto simp add: call_def pad_fn_def unzip_batch_def)

lemma kept_positions_cong:
  assumes "length logits = length logits'" and "length logits = length targets"
    and "\<forall>k<length logits. targets ! k \<noteq> ig \<longrightarrow> logits ! k = logits' ! k"
  shows "filter (\<lambda>(row, t). t \<noteq> ig) (zip logits targets) =
         filter (\<lambda>(row, t). t \<noteq> ig) (zip logits' targets)"
proof -
  from assms(1,2) have lengths: "length logits' = length targets" by simp
  from assms(1) lengths assms(3) show ?thesis
  proof (induction logits logits' targets rule: list_induct3)
    case Nil
    then show ?case by simp
  next
    case (Cons x xs y ys t ts)
    from Cons.prems have head: "t \<noteq> ig \<longrightarrow> x = y" by fastforce
  from Cons.prems have "\<forall>k<length xs. ts ! k \<noteq> ig \<longrightarrow> xs ! k = ys ! k" by fastforce
  with Cons.IH have "filter (\<lambda>(row, t). t \<noteq> ig) (zip xs ts) =
         filter (\<lambda>(row, t). t \<noteq> ig) (zip ys ts)" by simp
    with head show ?case by simp
  qed
qed

lemma CrossEntropyLoss_ignores:
  assumes "length logits = length logits'"
    and "\<forall>k<length logits. targets ! k \<noteq> ig \<longrightarrow> logits ! k = logits' ! k"
  shows "CrossEntropyLoss self ig logits targets = CrossEntropyLoss self ig logits' targets"
proof (cases "length logits = length targets")
  case True
  from kept_positions_cong [OF assms(1) True assms(2)] assms(1) True show ?thesis
    by (simp add: CrossEntropyLoss_def)
next
  case False
  with assms(1) show ?thesis by (simp add: CrossEntropyLoss_def)
qed

text \<open>
  C6, as the code has it: for a batch whose target \<open>token_ids\<close> has at least one column,
  \<open>training_step\<close> and \<open>validation_step\<close> each give the transformer the source as it is
  and, as decoder input, the target \<open>token_ids\<close> and mask without their last column. When
  the transformer raises, the step raises and computes no loss. When it returns, the step
  computes the cross-entropy loss of the logits against the target \<open>token_ids\<close> without
  their first column, row after row (the logits of position \<open>j\<close> are scored against the
  token at position \<open>j + 1\<close>), with the pad token id as ignore index: the loss does not
  depend on the logits at a position whose target is the pad token id, and when the batch
  comes from the data loaders' collator every target at a padding position is the pad
  token id.
\<close>

theorem steps_shift_labels_and_ignore_pad:
  assumes "well_shaped label_ids" and "well_shaped label_mask"
    and "dim0 label_mask = dim0 label_ids" and "dim1 label_mask = dim1 label_ids"
    and "1 \<le> dim1 label_ids"
  shows "\<exists>dec_ids dec_mask shift_label_ids.
     dim0 dec_ids = dim0 label_ids \<and> Suc (dim1 dec_ids) = dim1 label_ids \<and>
     well_shaped dec_ids \<and>
     (\<forall>i<dim0 label_ids. \<forall>j<dim1 dec_ids. at dec_ids i j = at label_ids i j) \<and>
     dim0 dec_mask = dim0 label_ids \<and> Suc (dim1 dec_mask) = dim1 label_ids \<and>
     well_shaped dec_mask \<and>
     (\<forall>i<dim0 label_ids. \<forall>j<dim1 dec_mask. at dec_mask i j = at label_mask i j) \<and>
     dim0 shift_label_ids = dim0 label_ids \<and> Suc (dim1 shift_label_ids) = dim1 label_ids \<and>
     well_shaped shift_label_ids \<and>
     (\<forall>i<dim0 label_ids. \<forall>j<dim1 shift_label_ids.
        at shift_label_ids i j = at label_ids i (Suc j)) \<and>
     length (view_flat shift_label_ids) = dim0 label_ids * dim1 shift_label_ids \<and>
     (\<forall>i<dim0 label_ids. \<forall>j<dim1 shift_label_ids.
        view_flat shift_label_ids ! (i * dim1 shift_label_ids + j) = at label_ids i (Suc j)) \<and>
     (\<forall>err. transformer self (token_ids inputs) (mask inputs) dec_ids dec_mask = Inl err \<longrightarrow>
        training_step self (inputs, \<lparr>token_ids = label_ids, mask = label_mask\<rparr>) batch_idx =
          Inl err) \<and>
     (\<forall>err. transformer self (token_ids inputs) (mask inputs) dec_ids dec_mask = Inl err \<longrightarrow>
        validation_step self (inputs, \<lparr>token_ids = label_ids, mask = label_mask\<rparr>) batch_idx =
          Inl err) \<and>
     (\<forall>h. transformer self (token_ids inputs) (mask inputs) dec_ids dec_mask = Inr h \<longrightarrow>
        training_step self (inputs, \<lparr>token_ids = label_ids, mask = label_mask\<rparr>) batch_idx =
          (case CrossEntropyLoss self (pad_token_id self)
                  (view_logits self (lm_head self h) (vocab_size self))
                  (view_flat shift_label_ids) of
             Inl err \<Rightarrow> Inl err
           | Inr loss \<Rightarrow> Inr ([(''train_loss'', loss)], Some loss))) \<and>
     (\<forall>h. transformer self (token_ids inputs) (mask inputs) dec_ids dec_mask = Inr h \<longrightarrow>
        validation_step self (inputs, \<lparr>token_ids = label_ids, mask = label_mask\<rparr>) batch_idx =
          (case CrossEntropyLoss self (pad_token_id self)
                  (view_logits self (lm_head self h) (vocab_size self))
                  (view_flat shift_label_ids) of
             Inl err \<Rightarrow> Inl err
           | Inr loss \<Rightarrow> Inr ([(''val_loss'', loss)], None))) \<and>
     (\<forall>logits logits'. length logits = length logits' \<longrightarrow>
        (\<forall>k<length logits. view_flat shift_label_ids ! k \<noteq> pad_token_id self \<longrightarrow>
           logits ! k = logits' ! k) \<longrightarrow>
        CrossEntropyLoss self (pad_token_id self) logits (view_flat shift_label_ids) =
        CrossEntropyLoss self (pad_token_id self) logits' (view_flat shift_label_ids)) \<and>
     (\<forall>raw. call (pad_fn_object self) raw =
              Inr (inputs, \<lparr>token_ids = label_ids, mask = label_mask\<rparr>) \<longrightarrow>
        (\<forall>i<length raw. \<forall>j<dim1 shift_label_ids.
           length (snd (raw ! i)) \<le> Suc j \<longrightarrow>
           at shift_label_ids i j = pad_token_id self \<and>
           view_flat shift_label_ids ! (i * dim1 shift_label_ids + j) = pad_token_id self))"
proof -
  let ?dec_ids = "slice_but_last label_ids"
  let ?dec_mask = "slice_but_last label_mask"
  let ?shift = "slice_from_one label_ids"
  let ?labels = "\<lparr>token_ids = label_ids, mask = label_mask\<rparr>"
  let ?call = "transformer self (token_ids inputs) (mask inputs) ?dec_ids ?dec_mask"
  have dec_ids: "dim0 ?dec_ids = dim0 label_ids" "Suc (dim1 ?dec_ids) = dim1 label_ids"
    "well_shaped ?dec_ids"
    "\<forall>i<dim0 label_ids. \<forall>j<dim1 ?dec_ids. at ?dec_ids i j = at label_ids i j"
    using assms(1,5)
    by (simp_all add: slice_but_last_shape slice_but_last_well_shaped slice_but_last_at)
  have dec_mask: "dim0 ?dec_mask = dim0 label_ids" "Suc (dim1 ?dec_mask) = dim1 label_ids"
    "well_shaped ?dec_mask"
    "\<forall>i<dim0 label_ids. \<forall>j<dim1 ?dec_mask. at ?dec_mask i j = at label_mask i j"
    using assms(2,3,4,5)
    by (simp_all add: slice_but_last_shape slice_but_last_well_shaped slice_but_last_at)
  have shift: "dim0 ?shift = dim0 label_ids" "Suc (dim1 ?shift) = dim1 label_ids"
    "well_shaped ?shift"
    "\<forall>i<dim0 label_ids. \<forall>j<dim1 ?shift. at ?shift i j = at label_ids i (Suc j)"
    using assms(1,5)
    by (simp_all add: slice_from_one_shape slice_from_one_well_shaped slice_from_one_at)
  have flat_length: "length (view_flat ?shift) = dim0 label_ids * dim1 ?shift"
    using view_flat_length [OF shift(3)] by (simp add: shift(1))
  have flat_nth: "\<forall>i<dim0 label_ids. \<forall>j<dim1 ?shift.
        view_flat ?shift ! (i * dim1 ?shift + j) = at label_ids i (Suc j)"
    using view_flat_nth [OF shift(3)] shift(4) by (simp add: shift(1))
  have train_raises: "\<forall>err. ?call = Inl err \<longrightarrow>
        training_step self (inputs, ?labels) batch_idx = Inl err"
    by (simp add: training_step_def forward_def Let_def)
  have val_raises: "\<forall>err. ?call = Inl err \<longrightarrow>
        validation_step self (inputs, ?labels) batch_idx = Inl err"
    by (simp add: validation_step_def forward_def Let_def)
  have train_loss: "\<forall>h. ?call = Inr h \<longrightarrow>
        training_step self (inputs, ?labels) batch_idx =
          (case CrossEntropyLoss self (pad_token_id self)
                  (view_logits self (lm_head self h) (vocab_size self)) (view_flat ?shift) of
             Inl err \<Rightarrow> Inl err
           | Inr loss \<Rightarrow> Inr ([(''train_loss'', loss)], Some loss))"
    by (simp add: training_step_def forward_def Let_def)
  have val_loss: "\<forall>h. ?call = Inr h \<longrightarrow>
        validation_step self (inputs, ?labels) batch_idx =
          (case CrossEntropyLoss self (pad_token_id self)
                  (view_logits self (lm_head self h) (vocab_size self)) (view_flat ?shift) of
             Inl err \<Rightarrow> Inl err
           | Inr loss \<Rightarrow> Inr ([(''val_loss'', loss)], None))"
    by (simp add: validation_step_def forward_def Let_def)
  have ignores: "\<forall>logits logits'. length logits = length logits' \<longrightarrow>
        (\<forall>k<length logits. view_flat ?shift ! k \<noteq> pad_token_id self \<longrightarrow>
           logits ! k = logits' ! k) \<longrightarrow>
        CrossEntropyLoss self (pad_token_id self) logits (view_flat ?shift) =
        CrossEntropyLoss self (pad_token_id self) logits' (view_flat ?shift)"
    by (blast intro: CrossEntropyLoss_ignores)
  have pads: "\<forall>raw. call (pad_fn_object self) raw = Inr (inputs, ?labels) \<longrightarrow>
        (\<forall>i<length raw. \<forall>j<dim1 ?shift.
           length (snd (raw ! i)) \<le> Suc j \<longrightarrow>
           at ?shift i j = pad_token_id self \<and>
           view_flat ?shift ! (i * dim1 ?shift + j) = pad_token_id self)"
  proof (intro allI impI)
    fix raw i j
    assume collated: "call (pad_fn_object self) raw = Inr (inputs, ?labels)"
      and i: "i < length raw" and j: "j < dim1 ?shift"
      and padding: "length (snd (raw ! i)) \<le> Suc j"
    from collated have nonempty: "raw \<noteq> []" by (rule call_Inr_nonempty)
    from collated call_collated [OF nonempty, of "pad_fn_object self"]
    have ids: "label_ids = token_ids (collated (pad_fn_object self) (map snd raw))"
      by (metis Inr_inject prod.inject tokens.select_convs(1))
    from i have rows: "i < dim0 label_ids"
      by (simp add: ids collated_shape)
    from j shift(2) have col: "Suc j < dim1 label_ids" by simp
    have "at label_ids i (Suc j) = pad_id (pad_fn_object self)"
      unfolding ids
      using i padding col by (intro collated_ids_at_pad) (simp_all add: ids collated_shape)
    then have pad: "at label_ids i (Suc j) = pad_token_id self"
      by (simp add: pad_fn_object_def)
    from rows j shift(4) pad have "at ?shift i j = pad_token_id self" by simp
    moreover from rows j flat_nth pad
    have "view_flat ?shift ! (i * dim1 ?shift + j) = pad_token_id self" by simp
    ultimately show "at ?shift i j = pad_token_id self \<and>
           view_flat ?shift ! (i * dim1 ?shift + j) = pad_token_id self" ..
  qed
  from dec_ids dec_mask shift flat_length flat_nth train_raises val_raises train_loss val_loss
    ignores pads
  show ?thesis by blast
qed

theorem steps_shift_labels_and_ignore_pad_witness:
  "well_shaped \<lparr>dim0 = 2, dim1 = 3, entries = [[1 :: int, 5, 2], [1, 2, 0]]\<rparr> \<and>
   well_shaped \<lparr>dim0 = 2, dim1 = 3, entries = [[True, True, True], [True, True, False]]\<rparr> \<and>
   (1 :: nat) \<le> 3 \<and>
   call (pad_fn_object
        \<lparr>pad_token_id = 0, vocab_size = 6,
         transformer = (\<lambda>input_ids input_mask dec_ids dec_mask.
           if dim1 dec_ids = 0 then Inl RuntimeError
           else Inr (dec_ids :: int tensor2, dec_mask :: bool tensor2)),
         lm_head = (\<lambda>h. h),
         view_logits = (\<lambda>lg (n :: nat). view_flat (fst lg)),
         nll_mean = (\<lambda>kept :: (int \<times> int) list. kept)\<rparr>)
     [([9], [1, 5, 2]), ([9], [1, 2])] =
     Inr (\<lparr>token_ids = \<lparr>dim0 = 2, dim1 = 1, entries = [[9], [9]]\<rparr>,
          mask = \<lparr>dim0 = 2, dim1 = 1, entries = [[True], [True]]\<rparr>\<rparr>,
         \<lparr>token_ids = \<lparr>dim0 = 2, dim1 = 3, entries = [[1 :: int, 5, 2], [1, 2, 0]]\<rparr>,
          mask = \<lparr>dim0 = 2, dim1 = 3, entries = [[True, True, True], [True, True, False]]\<rparr>\<rparr>) \<and>
   (\<exists>dec_ids dec_mask shift_label_ids.
      dim1 dec_ids = 2 \<and> at dec_ids 0 1 = 5 \<and> at dec_mask 1 1 \<and>
      dim1 shift_label_ids = 2 \<and> at shift_label_ids 0 0 = 5 \<and>
      view_flat shift_label_ids ! 2 = 2 \<and> at shift_label_ids 1 1 = 0 \<and>
      view_flat shift_label_ids ! 3 = 0 \<and>
      training_step
        \<lparr>pad_token_id = 0, vocab_size = 6,
         transformer = (\<lambda>input_ids input_mask dec_ids dec_mask.
           if dim1 dec_ids = 0 then Inl RuntimeError
           else Inr (dec_ids :: int tensor2, dec_mask :: bool tensor2)),
         lm_head = (\<lambda>h. h),
         view_logits = (\<lambda>lg (n :: nat). view_flat (fst lg)),
         nll_mean = (\<lambda>kept :: (int \<times> int) list. kept)\<rparr>
        (\<lparr>token_ids = \<lparr>dim0 = 2, dim1 = 1, entries = [[9], [9]]\<rparr>,
          mask = \<lparr>dim0 = 2, dim1 = 1, entries = [[True], [True]]\<rparr>\<rparr>,
         \<lparr>token_ids = \<lparr>dim0 = 2, dim1 = 3, entries = [[1 :: int, 5, 2], [1, 2, 0]]\<rparr>,
          mask = \<lparr>dim0 = 2, dim1 = 3, entries = [[True, True, True], [True, True, False]]\<rparr>\<rparr>) 0 =
        (case CrossEntropyLoss
                \<lparr>pad_token_id = 0, vocab_size = 6,
         transformer = (\<lambda>input_ids input_mask dec_ids dec_mask.
           if dim1 dec_ids = 0 then Inl RuntimeError
           else Inr (dec_ids :: int tensor2, dec_mask :: bool tensor2)),
         lm_head = (\<lambda>h. h),
         view_logits = (\<lambda>lg (n :: nat). view_flat (fst lg)),
         nll_mean = (\<lambda>kept :: (int \<times> int) list. kept)\<rparr>
                0 (view_flat dec_ids) (view_flat shift_label_ids) of
           Inl err \<Rightarrow> Inl err
         | Inr loss \<Rightarrow> Inr ([(''train_loss'', loss)], Some loss))) \<and>
   training_step
     \<lparr>pad_token_id = 0, vocab_size = 6,
         transformer = (\<lambda>input_ids input_mask dec_ids dec_mask.
           if dim1 dec_ids = 0 then Inl RuntimeError
           else Inr (dec_ids :: int tensor2, dec_mask :: bool tensor2)),
         lm_head = (\<lambda>h. h),
         view_logits = (\<lambda>lg (n :: nat). view_flat (fst lg)),
         nll_mean = (\<lambda>kept :: (int \<times> int) list. kept)\<rparr>
     (\<lparr>token_ids = \<lparr>dim0 = 2, dim1 = 1, entries = [[9], [9]]\<rparr>,
          mask = \<lparr>dim0 = 2, dim1 = 1, entries = [[True], [True]]\<rparr>\<rparr>,
      \<lparr>token_ids = \<lparr>dim0 = 2, dim1 = 3, entries = [[1 :: int, 5, 2], [1, 2, 0]]\<rparr>,
          mask = \<lparr>dim0 = 2, dim1 = 3, entries = [[True, True, True], [True, True, False]]\<rparr>\<rparr>) 0 =
     Inr ([(''train_loss'', [(1, 5), (5, 2), (1, 2)])], Some [(1, 5), (5, 2), (1, 2)]) \<and>
   validation_step
     \<lparr>pad_token_id = 0, vocab_size = 6,
         transformer = (\<lambda>input_ids input_mask dec_ids dec_mask.
           if dim1 dec_ids = 0 then Inl RuntimeError
           else Inr (dec_ids :: int tensor2, dec_mask :: bool tensor2)),
         lm_head = (\<lambda>h. h),
         view_logits = (\<lambda>lg (n :: nat). view_flat (fst lg)),
         nll_mean = (\<lambda>kept :: (int \<times> int) list. kept)\<rparr>
     (\<lparr>token_ids = \<lparr>dim0 = 2, dim1 = 1, entries = [[9], [9]]\<rparr>,
          mask = \<lparr>dim0 = 2, dim1 = 1, entries = [[True], [True]]\<rparr>\<rparr>,
      \<lparr>token_ids = \<lparr>dim0 = 2, dim1 = 3, entries = [[1 :: int, 5, 2], [1, 2, 0]]\<rparr>,
          mask = \<lparr>dim0 = 2, dim1 = 3, entries = [[True, True, True], [True, True, False]]\<rparr>\<rparr>) 0 =
     Inr ([(''val_loss'', [(1, 5), (5, 2), (1, 2)])], None)"
proof -
  let ?ids = "\<lparr>dim0 = 2, dim1 = 3, entries = [[1 :: int, 5, 2], [1, 2, 0]]\<rparr>"
  let ?mask = "\<lparr>dim0 = 2, dim1 = 3, entries = [[True, True, True], [True, True, False]]\<rparr>"
  let ?inputs = "\<lparr>token_ids = \<lparr>dim0 = 2, dim1 = 1, entries = [[9], [9]]\<rparr>,
          mask = \<lparr>dim0 = 2, dim1 = 1, entries = [[True], [True]]\<rparr>\<rparr>"
  let ?m = "\<lparr>pad_token_id = 0, vocab_size = 6,
         transformer = (\<lambda>input_ids input_mask dec_ids dec_mask.
           if dim1 dec_ids = 0 then Inl RuntimeError
           else Inr (dec_ids :: int tensor2, dec_mask :: bool tensor2)),
         lm_head = (\<lambda>h. h),
         view_logits = (\<lambda>lg (n :: nat). view_flat (fst lg)),
         nll_mean = (\<lambda>kept :: (int \<times> int) list. kept)\<rparr>"
  let ?raw = "[([9 :: int], [1 :: int, 5, 2]), ([9], [1, 2])]"
  let ?labels = "\<lparr>token_ids = ?ids, mask = ?mask\<rparr>"
  have ws_ids: "well_shaped ?ids" and ws_mask: "well_shaped ?mask"
    by (simp_all add: well_shaped_def)
  have rows: "dim0 ?mask = dim0 ?ids" and cols: "dim1 ?mask = dim1 ?ids"
    and wide: "1 \<le> dim1 ?ids"
    by simp_all
  have collated: "call (pad_fn_object ?m) ?raw = Inr (?inputs, ?labels)"
    by (simp add: pad_fn_object_def call_def pad_fn_def unzip_batch_def merge_def
        merge_alloc_def full_def setitem_prefix_def make_mask_def arange_def
        eval_nat_numeral upt_conv_Cons)
  have train: "training_step ?m (?inputs, ?labels) 0 =
      Inr ([(''train_loss'', [(1, 5), (5, 2), (1, 2)])], Some [(1, 5), (5, 2), (1, 2)])"
    by (simp add: training_step_def forward_def CrossEntropyLoss_def slice_but_last_def
        slice_from_one_def view_flat_def)
  have val: "validation_step ?m (?inputs, ?labels) 0 =
      Inr ([(''val_loss'', [(1, 5), (5, 2), (1, 2)])], None)"
    by (simp add: validation_step_def forward_def CrossEntropyLoss_def slice_but_last_def
        slice_from_one_def view_flat_def)
  from steps_shift_labels_and_ignore_pad [OF ws_ids ws_mask rows cols wide, of ?m ?inputs 0]
  obtain dec_ids dec_mask shift_label_ids
    where dec_width: "Suc (dim1 dec_ids) = dim1 ?ids"
      and dec_at: "\<forall>i<dim0 ?ids. \<forall>j<dim1 dec_ids. at dec_ids i j = at ?ids i j"
      and mask_width: "Suc (dim1 dec_mask) = dim1 ?ids"
      and mask_at: "\<forall>i<dim0 ?ids. \<forall>j<dim1 dec_mask. at dec_mask i j = at ?mask i j"
      and shift_width: "Suc (dim1 shift_label_ids) = dim1 ?ids"
      and shift_at: "\<forall>i<dim0 ?ids. \<forall>j<dim1 shift_label_ids.
        at shift_label_ids i j = at ?ids i (Suc j)"
      and flat_at: "\<forall>i<dim0 ?ids. \<forall>j<dim1 shift_label_ids.
        view_flat shift_label_ids ! (i * dim1 shift_label_ids + j) = at ?ids i (Suc j)"
      and returned: "\<forall>h. transformer ?m (token_ids ?inputs) (mask ?inputs) dec_ids dec_mask =
            Inr h \<longrightarrow>
        training_step ?m (?inputs, ?labels) 0 =
          (case CrossEntropyLoss ?m (pad_token_id ?m)
                  (view_logits ?m (lm_head ?m h) (vocab_size ?m))
                  (view_flat shift_label_ids) of
             Inl err \<Rightarrow> Inl err
           | Inr loss \<Rightarrow> Inr ([(''train_loss'', loss)], Some loss))"
      and pads: "\<forall>raw. call (pad_fn_object ?m) raw = Inr (?inputs, ?labels) \<longrightarrow>
        (\<forall>i<length raw. \<forall>j<dim1 shift_label_ids.
           length (snd (raw ! i)) \<le> Suc j \<longrightarrow>
           at shift_label_ids i j = pad_token_id ?m \<and>
           view_flat shift_label_ids ! (i * dim1 shift_label_ids + j) = pad_token_id ?m)"
    by (elim exE conjE)
  from dec_width have w1: "dim1 dec_ids = 2" by simp
  from mask_width have w2: "dim1 dec_mask = 2" by simp
  from shift_width have w3: "dim1 shift_label_ids = 2" by simp
  from dec_at [rule_format, of 0 1] w1 have a1: "at dec_ids 0 1 = 5" by (simp add: at_def)
  from mask_at [rule_format, of 1 1] w2 have a2: "at dec_mask 1 1" by (simp add: at_def)
  from shift_at [rule_format, of 0 0] w3 have a3: "at shift_label_ids 0 0 = 5"
    by (simp add: at_def)
  from flat_at [rule_format, of 1 0] w3 have a4: "view_flat shift_label_ids ! 2 = 2"
    by (simp add: at_def)
  from pads [rule_format, OF collated, of 1 1] w3
  have a5: "at shift_label_ids 1 1 = 0" and a6: "view_flat shift_label_ids ! 3 = 0"
    by simp_all
  from w1 have "transformer ?m (token_ids ?inputs) (mask ?inputs) dec_ids dec_mask =
      Inr (dec_ids, dec_mask)"
    by simp
  from returned [rule_format, OF this]
  have fed: "training_step ?m (?inputs, ?labels) 0 =
        (case CrossEntropyLoss ?m 0 (view_flat dec_ids) (view_flat shift_label_ids) of
           Inl err \<Rightarrow> Inl err
         | Inr loss \<Rightarrow> Inr ([(''train_loss'', loss)], Some loss))"
    by simp
  have goal: "\<exists>dec_ids dec_mask shift_label_ids.
      dim1 dec_ids = 2 \<and> at dec_ids 0 1 = 5 \<and> at dec_mask 1 1 \<and>
      dim1 shift_label_ids = 2 \<and> at shift_label_ids 0 0 = 5 \<and>
      view_flat shift_label_ids ! 2 = 2 \<and> at shift_label_ids 1 1 = 0 \<and>
      view_flat shift_label_ids ! 3 = 0 \<and>
      training_step ?m (?inputs, ?labels) 0 =
        (case CrossEntropyLoss ?m 0 (view_flat dec_ids) (view_flat shift_label_ids) of
           Inl err \<Rightarrow> Inl err
         | Inr loss \<Rightarrow> Inr ([(''train_loss'', loss)], Some loss))"
    using w1 a1 a2 w3 a3 a4 a5 a6 fed by (intro exI conjI)
  have "(1 :: nat) \<le> 3" by simp
  with ws_ids ws_mask collated goal train val show ?thesis by (intro conjI)
qed

text \<open>
  C6 with a loss computed for every target width from 1 on does not hold. With a
  transformer that raises on a decoder input of no column, as the \<open>BartModel\<close> of the
  module does, the batch collated from the single pair \<open>([9], [7])\<close> has target width 1,
  the decoder input has no column, and both steps raise.
\<close>

theorem steps_raise_at_target_width_one:
  "call (pad_fn_object
        \<lparr>pad_token_id = 0, vocab_size = 6,
         transformer = (\<lambda>input_ids input_mask dec_ids dec_mask.
           if dim1 dec_ids = 0 then Inl RuntimeError
           else Inr (dec_ids :: int tensor2, dec_mask :: bool tensor2)),
         lm_head = (\<lambda>h. h),
         view_logits = (\<lambda>lg (n :: nat). view_flat (fst lg)),
         nll_mean = (\<lambda>kept :: (int \<times> int) list. kept)\<rparr>)
     [([9], [7])] =
     Inr (\<lparr>token_ids = \<lparr>dim0 = 1, dim1 = 1, entries = [[9]]\<rparr>,
           mask = \<lparr>dim0 = 1, dim1 = 1, entries = [[True]]\<rparr>\<rparr>,
          \<lparr>token_ids = \<lparr>dim0 = 1, dim1 = 1, entries = [[7]]\<rparr>,
           mask = \<lparr>dim0 = 1, dim1 = 1, entries = [[True]]\<rparr>\<rparr>) \<and>
   (1 :: nat) \<le> dim1 \<lparr>dim0 = 1, dim1 = 1, entries = [[7 :: int]]\<rparr> \<and>
   slice_but_last \<lparr>dim0 = 1, dim1 = 1, entries = [[7 :: int]]\<rparr> =
     \<lparr>dim0 = 1, dim1 = 0, entries = [[]]\<rparr> \<and>
   training_step
     \<lparr>pad_token_id = 0, vocab_size = 6,
         transformer = (\<lambda>input_ids input_mask dec_ids dec_mask.
           if dim1 dec_ids = 0 then Inl RuntimeError
           else Inr (dec_ids :: int tensor2, dec_mask :: bool tensor2)),
         lm_head = (\<lambda>h. h),
         view_logits = (\<lambda>lg (n :: nat). view_flat (fst lg)),
         nll_mean = (\<lambda>kept :: (int \<times> int) list. kept)\<rparr>
     (\<lparr>token_ids = \<lparr>dim0 = 1, dim1 = 1, entries = [[9]]\<rparr>,
       mask = \<lparr>dim0 = 1, dim1 = 1, entries = [[True]]\<rparr>\<rparr>,
      \<lparr>token_ids = \<lparr>dim0 = 1, dim1 = 1, entries = [[7]]\<rparr>,
       mask = \<lparr>dim0 = 1, dim1 = 1, entries = [[True]]\<rparr>\<rparr>) 0 =
     Inl RuntimeError \<and>
   validation_step
     \<lparr>pad_token_id = 0, vocab_size = 6,
         transformer = (\<lambda>input_ids input_mask dec_ids dec_mask.
           if dim1 dec_ids = 0 then Inl RuntimeError
           else Inr (dec_ids :: int tensor2, dec_mask :: bool tensor2)),
         lm_head = (\<lambda>h. h),
         view_logits = (\<lambda>lg (n :: nat). view_flat (fst lg)),
         nll_mean = (\<lambda>kept :: (int \<times> int) list. kept)\<rparr>
     (\<lparr>token_ids = \<lparr>dim0 = 1, dim1 = 1, entries = [[9]]\<rparr>,
       mask = \<lparr>dim0 = 1, dim1 = 1, entries = [[True]]\<rparr>\<rparr>,
      \<lparr>token_ids = \<lparr>dim0 = 1, dim1 = 1, entries = [[7]]\<rparr>,
       mask = \<lparr>dim0 = 1, dim1 = 1, entries = [[True]]\<rparr>\<rparr>) 0 =
     Inl RuntimeError"
proof -
  let ?m = "\<lparr>pad_token_id = 0, vocab_size = 6,
         transformer = (\<lambda>input_ids input_mask dec_ids dec_mask.
           if dim1 dec_ids = 0 then Inl RuntimeError
           else Inr (dec_ids :: int tensor2, dec_mask :: bool tensor2)),
         lm_head = (\<lambda>h. h),
         view_logits = (\<lambda>lg (n :: nat). view_flat (fst lg)),
         nll_mean = (\<lambda>kept :: (int \<times> int) list. kept)\<rparr>"
  let ?inputs = "\<lparr>token_ids = \<lparr>dim0 = 1, dim1 = 1, entries = [[9 :: int]]\<rparr>,
       mask = \<lparr>dim0 = 1, dim1 = 1, entries = [[True]]\<rparr>\<rparr>"
  let ?labels = "\<lparr>token_ids = \<lparr>dim0 = 1, dim1 = 1, entries = [[7 :: int]]\<rparr>,
       mask = \<lparr>dim0 = 1, dim1 = 1, entries = [[True]]\<rparr>\<rparr>"
  have collated: "call (pad_fn_object ?m) [([9], [7])] = Inr (?inputs, ?labels)"
    by (simp add: pad_fn_object_def call_def pad_fn_def unzip_batch_def merge_def
        merge_alloc_def full_def setitem_prefix_def make_mask_def arange_def)
  have wide: "(1 :: nat) \<le> dim1 \<lparr>dim0 = 1, dim1 = 1, entries = [[7 :: int]]\<rparr>"
    by simp
  have empty: "slice_but_last \<lparr>dim0 = 1, dim1 = 1, entries = [[7 :: int]]\<rparr> =
      \<lparr>dim0 = 1, dim1 = 0, entries = [[]]\<rparr>"
    by (simp add: slice_but_last_def)
  have train: "training_step ?m (?inputs, ?labels) 0 = Inl RuntimeError"
    by (simp add: training_step_def forward_def slice_but_last_def)
  have val: "validation_step ?m (?inputs, ?labels) 0 = Inl RuntimeError"
    by (simp add: validation_step_def forward_def slice_but_last_def)
  from collated wide empty train val show ?thesis by (intro conjI)
qed

section \<open>The empty batch\<close>

text \<open>
  C10: calling the collator on the empty batch returns no result: unpacking the zipped
  batch raises; and \<open>merge\<close> on no sequence raises too, at the maximum of no length.
\<close>

theorem call_empty_batch_raises:
  "call self [] = Inl ValueError \<and> merge self [] None = Inl ValueError"
  by (simp add: call_def pad_fn_def unzip_batch_def merge_def merge_alloc_def)

end
